theory Spec2Isabelle
  imports Main
begin

section \<open>Data model of \<open>app/models.py\<close>\<close>

text \<open>
  Every model class is a record whose fields are the class's columns, prefixed by the
  class (record fields share one name space). A foreign-key column and the relationship
  attribute loaded through it are one optional field holding the referenced row: the
  database enforces the foreign key, so the relationship is present exactly when the key
  column is non-null, and the key column is the referenced row's \<open>id\<close>.
  Primary keys are natural numbers. The columns \<open>created_at\<close> and \<open>updated_at\<close> of
  \<open>ModelMixin\<close> are left out: no method of the module reads them.
\<close>

datatype py_error = TypeError | IntegrityError | RecursionError

text \<open>
  An \<open>Arrow\<close> timestamp: an instant, in microseconds since the epoch (the resolution of
  Arrow). Two timestamps compare as instants.
\<close>

type_synonym arrow = int

text \<open>The instant \<open>d\<close> days of elapsed time after \<open>t\<close>.\<close>

definition plus_days :: "int \<Rightarrow> arrow \<Rightarrow> arrow" where
  "plus_days d t = t + d * 86400000000"

text \<open>
  The test \<open>if self.x_id:\<close> on an optional foreign key, followed by a use of the
  relationship \<open>self.x\<close>: the referenced row when the key is truthy (neither \<open>None\<close>
  nor \<open>0\<close>), and \<open>None\<close> when the \<open>else\<close> branch is taken. Keys come from
  \<open>autoincrement\<close>, which counts from 1.
\<close>

fun if_key :: "('a \<Rightarrow> nat) \<Rightarrow> 'a option \<Rightarrow> 'a option" where
  "if_key key None = None"
| "if_key key (Some r) = (if key r \<noteq> 0 then Some r else None)"

text \<open>The constants imported from \<open>app.config\<close>.\<close>

record config =
  EMAIL_DOMAIN :: string
  MAX_NB_EMAIL_FREE_PLAN :: int
  URL :: string

record File =
  file_id :: nat
  file_path :: string

datatype PlanEnum = free | trial | monthly | yearly

record User =
  u_id :: nat
  u_email :: string
  u_salt :: string
  u_password :: string
  u_name :: string
  u_is_admin :: bool
  u_activated :: bool
  u_plan :: PlanEnum
  u_plan_expiration :: "arrow option"
  u_stripe_customer_id :: "string option"
  u_stripe_card_token :: "string option"
  u_stripe_subscription_id :: "string option"
  u_profile_picture :: "File option"
  u_is_developer :: bool
  u_promo_codes :: "string option"

definition u_profile_picture_id :: "User \<Rightarrow> nat option" where
  "u_profile_picture_id u = map_option file_id (u_profile_picture u)"

record Client =
  c_id :: nat
  c_oauth_client_id :: string
  c_oauth_client_secret :: string
  c_name :: string
  c_home_url :: "string option"
  c_published :: bool
  c_user_id :: nat
  c_icon :: "File option"

definition c_icon_id :: "Client \<Rightarrow> nat option" where
  "c_icon_id c = map_option file_id (c_icon c)"

record GenEmail =
  ge_id :: nat
  ge_user_id :: nat
  ge_email :: string
  ge_enabled :: bool

record ClientUser =
  cu_id :: nat
  cu_user :: User
  cu_client :: Client
  cu_gen_email :: "GenEmail option"

definition cu_user_id :: "ClientUser \<Rightarrow> nat" where
  "cu_user_id r = u_id (cu_user r)"

definition cu_client_id :: "ClientUser \<Rightarrow> nat" where
  "cu_client_id r = c_id (cu_client r)"

definition cu_gen_email_id :: "ClientUser \<Rightarrow> nat option" where
  "cu_gen_email_id r = map_option ge_id (cu_gen_email r)"

record AuthorizationCode =
  ac_id :: nat
  ac_code :: string
  ac_client :: Client
  ac_user :: User
  ac_scope :: "string option"
  ac_redirect_uri :: "string option"

record OauthToken =
  ot_id :: nat
  ot_access_token :: "string option"
  ot_client :: Client
  ot_user :: User
  ot_scope :: "string option"
  ot_redirect_uri :: "string option"

section \<open>Plan and quota\<close>

text \<open>
  \<open>User.should_upgrade\<close>. The parameter \<open>week_later\<close> is the value of
  \<open>arrow.now().shift(weeks=1)\<close>: \<open>shift\<close> adds one week on the wall clock of the local
  time zone, which is 7 days of elapsed time after now when the UTC offset of the zone
  does not change within the week, and more or less than that when it does.
  The comparison is only evaluated for a trial user (\<open>and\<close> short-circuits); comparing
  \<open>None\<close> with an \<open>Arrow\<close> raises \<open>TypeError\<close>.
\<close>

definition should_upgrade :: "arrow \<Rightarrow> User \<Rightarrow> py_error + bool" where
  "should_upgrade week_later u =
     (if u_plan u = free then Inr True
      else if u_plan u = trial then
        (case u_plan_expiration u of
           None \<Rightarrow> Inl TypeError
         | Some e \<Rightarrow> if e < week_later then Inr True else Inr False)
      else Inr False)"

definition is_premium :: "User \<Rightarrow> bool" where
  "is_premium u = (u_plan u = monthly \<or> u_plan u = yearly)"

text \<open>\<open>GenEmail.filter_by(user_id=...).count()\<close> over the table of generated emails.\<close>

definition count_gen_emails :: "GenEmail list \<Rightarrow> nat \<Rightarrow> nat" where
  "count_gen_emails tbl uid = length (filter (\<lambda>g. ge_user_id g = uid) tbl)"

definition can_create_new_email ::
    "config \<Rightarrow> arrow \<Rightarrow> GenEmail list \<Rightarrow> User \<Rightarrow> py_error + bool" where
  "can_create_new_email cfg now tbl u =
     (if is_premium u then Inr True
      else if u_plan u = trial then
        (case u_plan_expiration u of
           None \<Rightarrow> Inl TypeError
         | Some e \<Rightarrow>
             if e > now then Inr True
             else Inr (int (count_gen_emails tbl (u_id u)) < MAX_NB_EMAIL_FREE_PLAN cfg))
      else Inr (int (count_gen_emails tbl (u_id u)) < MAX_NB_EMAIL_FREE_PLAN cfg))"

section \<open>Users: creation, password, promo codes, profile picture\<close>

text \<open>
  The keyword arguments of \<open>User(**kw)\<close>: one optional value per column, \<open>None\<close> when
  the keyword is not given.
\<close>

record User_kw =
  kw_email :: "string option"
  kw_salt :: "string option"
  kw_password :: "string option"
  kw_name :: "string option"
  kw_is_admin :: "bool option"
  kw_activated :: "bool option"
  kw_plan :: "PlanEnum option"
  kw_plan_expiration :: "arrow option"
  kw_stripe_customer_id :: "string option"
  kw_stripe_card_token :: "string option"
  kw_stripe_subscription_id :: "string option"
  kw_profile_picture :: "File option"
  kw_is_developer :: "bool option"
  kw_promo_codes :: "string option"

text \<open>A \<open>unique=True\<close> column: a non-null value must not occur in the table yet.\<close>

definition unique_ok :: "('r \<Rightarrow> 'v option) \<Rightarrow> 'v option \<Rightarrow> 'r list \<Rightarrow> bool" where
  "unique_ok col v tbl =
     (case v of None \<Rightarrow> True | Some x \<Rightarrow> list_all (\<lambda>r. col r \<noteq> Some x) tbl)"

text \<open>
  \<open>ModelMixin.create\<close> on \<open>User\<close>: \<open>cls(**kw)\<close> and \<open>db.session.add\<close>, with the insert
  the session later flushes: the column defaults fill the keywords not given, the new row
  takes the key \<open>new_id\<close>, and a missing non-nullable column or a repeated unique value
  raises \<open>IntegrityError\<close>. Nothing relates \<open>plan\<close> and \<open>plan_expiration\<close>.
\<close>

definition User_create :: "User list \<Rightarrow> nat \<Rightarrow> User_kw \<Rightarrow> py_error + User \<times> User list" where
  "User_create tbl new_id kw =
     (case (kw_email kw, kw_salt kw, kw_password kw, kw_name kw) of
        (Some e, Some s, Some p, Some n) \<Rightarrow>
          if unique_ok (\<lambda>r. Some (u_email r)) (Some e) tbl
             \<and> unique_ok u_stripe_customer_id (kw_stripe_customer_id kw) tbl
             \<and> unique_ok u_stripe_card_token (kw_stripe_card_token kw) tbl
             \<and> unique_ok u_stripe_subscription_id (kw_stripe_subscription_id kw) tbl
          then
            (let r = \<lparr>u_id = new_id, u_email = e, u_salt = s, u_password = p, u_name = n,
                      u_is_admin = (case kw_is_admin kw of None \<Rightarrow> False | Some b \<Rightarrow> b),
                      u_activated = (case kw_activated kw of None \<Rightarrow> False | Some b \<Rightarrow> b),
                      u_plan = (case kw_plan kw of None \<Rightarrow> free | Some pl \<Rightarrow> pl),
                      u_plan_expiration = kw_plan_expiration kw,
                      u_stripe_customer_id = kw_stripe_customer_id kw,
                      u_stripe_card_token = kw_stripe_card_token kw,
                      u_stripe_subscription_id = kw_stripe_subscription_id kw,
                      u_profile_picture = kw_profile_picture kw,
                      u_is_developer = (case kw_is_developer kw of None \<Rightarrow> False | Some b \<Rightarrow> b),
                      u_promo_codes = kw_promo_codes kw\<rparr>
             in Inr (r, tbl @ [r]))
          else Inl IntegrityError
      | _ \<Rightarrow> Inl IntegrityError)"

text \<open>
  \<open>User.set_password\<close>. \<open>bcrypt\<close> is external: \<open>gensalt\<close> is the salt that
  \<open>bcrypt.gensalt()\<close> returns and \<open>hashpw\<close> is \<open>bcrypt.hashpw\<close> (on decoded strings).
\<close>

definition set_password :: "(string \<Rightarrow> string \<Rightarrow> string) \<Rightarrow> string \<Rightarrow> string \<Rightarrow> User \<Rightarrow> User" where
  "set_password hashpw gensalt password u =
     u\<lparr>u_salt := gensalt, u_password := hashpw password gensalt\<rparr>"

text \<open>\<open>str.split(sep)\<close> for a one-character separator, and \<open>sep.join(words)\<close>.\<close>

fun str_split :: "char \<Rightarrow> string \<Rightarrow> string list" where
  "str_split sep [] = [[]]"
| "str_split sep (c # cs) =
     (if c = sep then [] # str_split sep cs
      else (case str_split sep cs of
              [] \<Rightarrow> [[c]]
            | w # ws \<Rightarrow> (c # w) # ws))"

fun str_join :: "string \<Rightarrow> string list \<Rightarrow> string" where
  "str_join sep [] = []"
| "str_join sep [w] = w"
| "str_join sep (w # v # ws) = w @ sep @ str_join sep (v # ws)"

text \<open>\<open>User.get_promo_codes\<close>: \<open>not self.promo_codes\<close> holds for \<open>None\<close> and for \<open>""\<close>.\<close>

definition get_promo_codes :: "User \<Rightarrow> string list" where
  "get_promo_codes u =
     (case u_promo_codes u of
        None \<Rightarrow> []
      | Some s \<Rightarrow> if s = [] then [] else str_split (CHR '','') s)"

definition save_new_promo_code :: "string \<Rightarrow> User \<Rightarrow> User" where
  "save_new_promo_code promo_code u =
     (let current_promo_codes = get_promo_codes u @ [promo_code]
      in u\<lparr>u_promo_codes := Some (str_join '','' current_promo_codes)\<rparr>)"

text \<open>
  \<open>File.get_url\<close>: \<open>s3.get_url\<close> belongs to the object storage and is the parameter
  \<open>s3_get_url\<close>.
\<close>

definition get_url :: "(string \<Rightarrow> string) \<Rightarrow> File \<Rightarrow> string" where
  "get_url s3_get_url f = s3_get_url (file_path f)"

text \<open>
  \<open>User.profile_picture_url\<close>. \<open>md5_hexdigest s\<close> stands for
  \<open>hashlib.md5(s.encode("utf-8")).hexdigest()\<close>; a \<open>string\<close> here is already the byte
  sequence.
\<close>

definition profile_picture_url :: "(string \<Rightarrow> string) \<Rightarrow> (string \<Rightarrow> string) \<Rightarrow> User \<Rightarrow> string" where
  "profile_picture_url md5_hexdigest s3_get_url u =
     (case if_key file_id (u_profile_picture u) of
        Some f \<Rightarrow> get_url s3_get_url f
      | None \<Rightarrow>
          (let hash_email = md5_hexdigest (u_email u)
           in ''https://www.gravatar.com/avatar/'' @ hash_email))"

section \<open>Clients\<close>

datatype Scope = NAME | EMAIL | AVATAR_URL

text \<open>
  Modelled from the spec: the enumeration \<open>Scope\<close> of \<open>app.oauth_models\<close>, which is not
  among the sources. The spec names the three scopes name, email and avatar_url, and the
  docstring of \<open>get_user_info\<close> shows their values as the keys of the result.
\<close>

fun Scope_value :: "Scope \<Rightarrow> string" where
  "Scope_value NAME = ''name''"
| "Scope_value EMAIL = ''email''"
| "Scope_value AVATAR_URL = ''avatar_url''"

definition get_scopes :: "Client \<Rightarrow> Scope list" where
  "get_scopes c = [NAME, EMAIL, AVATAR_URL]"

definition get_icon_url :: "config \<Rightarrow> (string \<Rightarrow> string) \<Rightarrow> Client \<Rightarrow> string" where
  "get_icon_url cfg s3_get_url c =
     (case if_key file_id (c_icon c) of
        Some f \<Rightarrow> get_url s3_get_url f
      | None \<Rightarrow> URL cfg @ ''/static/default-icon.svg'')"

section \<open>Identifier generation\<close>

text \<open>\<open>GenEmail.get_by(email=...)\<close> and \<open>Client.get_by(oauth_client_id=...)\<close>.\<close>

definition GenEmail_get_by :: "GenEmail list \<Rightarrow> string \<Rightarrow> GenEmail option" where
  "GenEmail_get_by tbl email = find (\<lambda>g. ge_email g = email) tbl"

definition Client_get_by :: "Client list \<Rightarrow> string \<Rightarrow> Client option" where
  "Client_get_by tbl oauth_client_id = find (\<lambda>c. c_oauth_client_id c = oauth_client_id) tbl"

text \<open>
  \<open>generate_email\<close>. The random source is external: \<open>random_words k\<close> is what the
  \<open>k\<close>-th call of \<open>random_words()\<close> returns, and \<open>n\<close> counts the calls made so far.
  The function calls itself on every collision and has no bound of its own. The
  interpreter ends the recursion: \<open>depth\<close> is the number of nested calls of the function
  that the recursion limit of the interpreter still allows, and the call beyond it
  raises \<open>RecursionError\<close>, which nothing catches.
\<close>

fun generate_email ::
    "config \<Rightarrow> (nat \<Rightarrow> string) \<Rightarrow> GenEmail list \<Rightarrow> nat \<Rightarrow> nat \<Rightarrow> py_error + string" where
  "generate_email cfg random_words tbl 0 n = Inl RecursionError"
| "generate_email cfg random_words tbl (Suc depth) n =
     (let random_email = random_words n @ ''@'' @ EMAIL_DOMAIN cfg
      in if GenEmail_get_by tbl random_email = None then Inr random_email
         else generate_email cfg random_words tbl depth (Suc n))"

text \<open>
  \<open>generate_oauth_client_id\<close>, likewise; \<open>convert_to_id\<close> and \<open>random_string\<close> come from
  \<open>app.utils\<close> and are parameters.
\<close>

fun generate_oauth_client_id ::
    "(string \<Rightarrow> string) \<Rightarrow> (nat \<Rightarrow> string) \<Rightarrow> Client list \<Rightarrow> string \<Rightarrow> nat \<Rightarrow> nat
       \<Rightarrow> py_error + string" where
  "generate_oauth_client_id convert_to_id random_string tbl client_name 0 n = Inl RecursionError"
| "generate_oauth_client_id convert_to_id random_string tbl client_name (Suc depth) n =
     (let oauth_client_id = convert_to_id client_name @ ''-'' @ random_string n
      in if Client_get_by tbl oauth_client_id = None then Inr oauth_client_id
         else generate_oauth_client_id convert_to_id random_string tbl client_name depth (Suc n))"

section \<open>Consent bindings\<close>

text \<open>
  The table of \<open>ClientUser\<close> rows, with the last key the sequence gave out. A row is
  inserted when it is added to the session (the flush that precedes the next query is
  not a step of its own), and the insert checks \<open>uq_client_user\<close>, the unique constraint
  on \<open>(user_id, client_id)\<close>.
\<close>

record ClientUser_table =
  cu_rows :: "ClientUser list"
  cu_last_id :: nat

definition ClientUser_get_by :: "ClientUser_table \<Rightarrow> nat \<Rightarrow> nat \<Rightarrow> ClientUser option" where
  "ClientUser_get_by tbl user_id client_id =
     find (\<lambda>r. cu_user_id r = user_id \<and> cu_client_id r = client_id) (cu_rows tbl)"

definition ClientUser_create ::
    "ClientUser_table \<Rightarrow> User \<Rightarrow> Client \<Rightarrow> GenEmail option
       \<Rightarrow> py_error + ClientUser \<times> ClientUser_table" where
  "ClientUser_create tbl user client gen_email =
     (if list_all (\<lambda>r. \<not> (cu_user_id r = u_id user \<and> cu_client_id r = c_id client)) (cu_rows tbl)
      then
        (let r = \<lparr>cu_id = Suc (cu_last_id tbl), cu_user = user, cu_client = client,
                  cu_gen_email = gen_email\<rparr>
         in Inr (r, \<lparr>cu_rows = cu_rows tbl @ [r], cu_last_id = Suc (cu_last_id tbl)\<rparr>))
      else Inl IntegrityError)"

text \<open>
  \<open>ModelMixin.get_or_create\<close> on \<open>ClientUser\<close> with the keywords \<open>user_id\<close> and
  \<open>client_id\<close>, in its two steps. The lookup \<open>r = cls.get_by(**kw)\<close> reads the table.
  The rest of the method acts on the result \<open>r\<close> of the lookup, on the table as it is
  by then: it returns \<open>r\<close>, or it inserts a new row when \<open>r\<close> is \<open>None\<close>. Nothing in the
  method catches the \<open>IntegrityError\<close> of the insert, and nothing looks up again.
\<close>

definition ClientUser_get_or_create_after ::
    "ClientUser option \<Rightarrow> ClientUser_table \<Rightarrow> User \<Rightarrow> Client
       \<Rightarrow> py_error + ClientUser \<times> ClientUser_table" where
  "ClientUser_get_or_create_after r tbl user client =
     (case r of
        Some row \<Rightarrow> Inr (row, tbl)
      | None \<Rightarrow> ClientUser_create tbl user client None)"

text \<open>The method run by one creator alone: both steps on the same table.\<close>

definition ClientUser_get_or_create ::
    "ClientUser_table \<Rightarrow> User \<Rightarrow> Client \<Rightarrow> py_error + ClientUser \<times> ClientUser_table" where
  "ClientUser_get_or_create tbl user client =
     ClientUser_get_or_create_after (ClientUser_get_by tbl (u_id user) (c_id client))
       tbl user client"

text \<open>
  Two creators calling the method for the same user and client at the same time, in the
  order lookup, lookup, insert, insert: both lookups read the table \<open>tbl\<close>, and the
  second creator acts on the table the first one leaves. The result is the pair of what
  the two creators get.
\<close>

definition get_or_create_race ::
    "ClientUser_table \<Rightarrow> User \<Rightarrow> Client
       \<Rightarrow> (py_error + ClientUser \<times> ClientUser_table) \<times> (py_error + ClientUser \<times> ClientUser_table)" where
  "get_or_create_race tbl user client =
     (let r1 = ClientUser_get_by tbl (u_id user) (c_id client);
          r2 = ClientUser_get_by tbl (u_id user) (c_id client);
          res1 = ClientUser_get_or_create_after r1 tbl user client;
          tbl1 = (case res1 of Inl e \<Rightarrow> tbl | Inr (row, tbl') \<Rightarrow> tbl');
          res2 = ClientUser_get_or_create_after r2 tbl1 user client
      in (res1, res2))"

definition ClientUser_delete :: "ClientUser_table \<Rightarrow> nat \<Rightarrow> ClientUser_table" where
  "ClientUser_delete tbl obj_id = tbl\<lparr>cu_rows := filter (\<lambda>r. cu_id r \<noteq> obj_id) (cu_rows tbl)\<rparr>"

text \<open>
  The operations on the table, and the table after a sequence of them from the empty
  table. \<open>Get_or_create_after r\<close> is the second step of a \<open>get_or_create\<close> whose lookup
  ran earlier and returned \<open>r\<close>, so the sequences include every interleaving of
  concurrent creators. An operation that raises leaves the table as it was (the session
  rolls back).
\<close>

datatype ClientUser_op =
    Create User Client "GenEmail option"
  | Get_or_create User Client
  | Get_or_create_after "ClientUser option" User Client
  | Delete nat

fun apply_op :: "ClientUser_table \<Rightarrow> ClientUser_op \<Rightarrow> ClientUser_table" where
  "apply_op tbl (Create user client gen_email) =
     (case ClientUser_create tbl user client gen_email of
        Inl e \<Rightarrow> tbl
      | Inr (r, tbl') \<Rightarrow> tbl')"
| "apply_op tbl (Get_or_create user client) =
     (case ClientUser_get_or_create tbl user client of
        Inl e \<Rightarrow> tbl
      | Inr (r, tbl') \<Rightarrow> tbl')"
| "apply_op tbl (Get_or_create_after r0 user client) =
     (case ClientUser_get_or_create_after r0 tbl user client of
        Inl e \<Rightarrow> tbl
      | Inr (r, tbl') \<Rightarrow> tbl')"
| "apply_op tbl (Delete obj_id) = ClientUser_delete tbl obj_id"

definition run_ops :: "ClientUser_op list \<Rightarrow> ClientUser_table" where
  "run_ops ops = foldl apply_op \<lparr>cu_rows = [], cu_last_id = 0\<rparr> ops"

text \<open>At most one row for each pair \<open>(user_id, client_id)\<close>.\<close>

definition one_binding_per_pair :: "ClientUser_table \<Rightarrow> bool" where
  "one_binding_per_pair tbl =
     distinct (map (\<lambda>r. (cu_user_id r, cu_client_id r)) (cu_rows tbl))"

section \<open>Scope projection\<close>

datatype pyval = PyNone | PyBool bool | PyInt int | PyStr string

definition get_email :: "ClientUser \<Rightarrow> string" where
  "get_email r =
     (case if_key ge_id (cu_gen_email r) of
        Some g \<Rightarrow> ge_email g
      | None \<Rightarrow> u_email (cu_user r))"

text \<open>The body of the loop of \<open>ClientUser.get_user_info\<close>, for one scope.\<close>

fun add_scope ::
    "(string \<Rightarrow> string) \<Rightarrow> ClientUser \<Rightarrow> Scope \<Rightarrow> (string \<rightharpoonup> pyval) \<Rightarrow> (string \<rightharpoonup> pyval)" where
  "add_scope s3_get_url r NAME res = res(Scope_value NAME \<mapsto> PyStr (u_name (cu_user r)))"
| "add_scope s3_get_url r AVATAR_URL res =
     (case if_key file_id (u_profile_picture (cu_user r)) of
        Some f \<Rightarrow> res(Scope_value AVATAR_URL \<mapsto> PyStr (get_url s3_get_url f))
      | None \<Rightarrow> res(Scope_value AVATAR_URL \<mapsto> PyNone))"
| "add_scope s3_get_url r EMAIL res =
     (case if_key ge_id (cu_gen_email r) of
        Some g \<Rightarrow> res(Scope_value EMAIL \<mapsto> PyStr (ge_email g))
      | None \<Rightarrow> res(Scope_value EMAIL \<mapsto> PyStr (u_email (cu_user r))))"

text \<open>
  \<open>ClientUser.get_user_info\<close> with the list of scopes it iterates over as a parameter,
  and the method itself, which takes the list from \<open>Client.get_scopes\<close>.
\<close>

definition user_info_for :: "(string \<Rightarrow> string) \<Rightarrow> Scope list \<Rightarrow> ClientUser \<Rightarrow> (string \<rightharpoonup> pyval)" where
  "user_info_for s3_get_url scopes r =
     fold (add_scope s3_get_url r) scopes
       [''id'' \<mapsto> PyInt (int (cu_id r)),
        ''client'' \<mapsto> PyStr (c_name (cu_client r)),
        ''email_verified'' \<mapsto> PyBool True]"

definition get_user_info :: "(string \<Rightarrow> string) \<Rightarrow> ClientUser \<Rightarrow> (string \<rightharpoonup> pyval)" where
  "get_user_info s3_get_url r = user_info_for s3_get_url (get_scopes (cu_client r)) r"

section \<open>Exchange of an authorization code\<close>

datatype oauth_error = InvalidGrant | ExpiredGrant | UnauthorizedClient

text \<open>
  The tables the exchange works on. The class \<open>AuthorizationCode\<close> has no expiry column;
  the expiry the spec gives a code is kept beside the row.
\<close>

record oauth_store =
  os_clients :: "Client list"
  os_codes :: "(AuthorizationCode \<times> arrow) list"
  os_tokens :: "OauthToken list"

text \<open>
  Modelled from the spec: the exchange of an authorization code for an access token
  (the transition \<open>code_issued \<rightarrow> exchanged\<close>), whose code is not among the sources;
  only the tables \<open>AuthorizationCode\<close> and \<open>OauthToken\<close> are. An unknown client or a wrong
  secret is \<open>UnauthorizedClient\<close>; a code that is not stored (never issued, or consumed),
  that belongs to another client or that is presented with another redirect URI is
  \<open>InvalidGrant\<close>; a code past its expiry is \<open>ExpiredGrant\<close>. Otherwise the token is
  stored with the scope of the code, and the code is removed in the same step.
  \<open>access_token\<close> is the fresh token of the identifier generator.
\<close>

definition exchange ::
    "oauth_store \<Rightarrow> arrow \<Rightarrow> string \<Rightarrow> string \<Rightarrow> string \<Rightarrow> string option \<Rightarrow> string
       \<Rightarrow> oauth_error + OauthToken \<times> oauth_store" where
  "exchange st now client_id client_secret code redirect_uri access_token =
     (case find (\<lambda>c. c_oauth_client_id c = client_id \<and> c_oauth_client_secret c = client_secret)
             (os_clients st) of
        None \<Rightarrow> Inl UnauthorizedClient
      | Some client \<Rightarrow>
          (case find (\<lambda>(a, expiry). ac_code a = code) (os_codes st) of
             None \<Rightarrow> Inl InvalidGrant
           | Some (a, expiry) \<Rightarrow>
               if c_id (ac_client a) \<noteq> c_id client then Inl InvalidGrant
               else if ac_redirect_uri a \<noteq> redirect_uri then Inl InvalidGrant
               else if expiry \<le> now then Inl ExpiredGrant
               else
                 (let token = \<lparr>ot_id = Suc (length (os_tokens st)),
                                ot_access_token = Some access_token,
                                ot_client = ac_client a, ot_user = ac_user a,
                                ot_scope = ac_scope a, ot_redirect_uri = ac_redirect_uri a\<rparr>
                  in Inr (token,
                          st\<lparr>os_codes := filter (\<lambda>(a', expiry'). ac_code a' \<noteq> code) (os_codes st),
                             os_tokens := os_tokens st @ [token]\<rparr>))))"

section \<open>The invariant of the plan expiration\<close>

text \<open>\<open>plan_expiration\<close> is set if and only if the plan is trial.\<close>

definition plan_expiration_iff_trial :: "User \<Rightarrow> bool" where
  "plan_expiration_iff_trial u = ((u_plan_expiration u \<noteq> None) = (u_plan u = trial))"

section \<open>Example data\<close>

definition demo_user :: User where
  "demo_user = \<lparr>u_id = 1, u_email = ''ann@example.org'', u_salt = ''s'', u_password = ''p'',
     u_name = ''Ann'', u_is_admin = False, u_activated = True, u_plan = free,
     u_plan_expiration = None, u_stripe_customer_id = None, u_stripe_card_token = None,
     u_stripe_subscription_id = None, u_profile_picture = None, u_is_developer = False,
     u_promo_codes = None\<rparr>"

definition demo_config :: config where
  "demo_config = \<lparr>EMAIL_DOMAIN = ''domain'', MAX_NB_EMAIL_FREE_PLAN = 3,
     URL = ''https://app.example''\<rparr>"

text \<open>The first \<open>n\<close> generated emails of user 1.\<close>

definition demo_gen_emails :: "nat \<Rightarrow> GenEmail list" where
  "demo_gen_emails n =
     map (\<lambda>i. \<lparr>ge_id = Suc i, ge_user_id = 1, ge_email = replicate (Suc i) CHR ''a'' @ ''@sl.example'',
               ge_enabled = True\<rparr>) [0..<n]"

definition demo_client :: Client where
  "demo_client = \<lparr>c_id = 1, c_oauth_client_id = ''demo-abcde'', c_oauth_client_secret = ''secret'',
     c_name = ''Demo'', c_home_url = None, c_published = True, c_user_id = 1, c_icon = None\<rparr>"

definition demo_alias :: GenEmail where
  "demo_alias = \<lparr>ge_id = 1, ge_user_id = 1, ge_email = ''a1@domain'', ge_enabled = True\<rparr>"

definition demo_binding :: ClientUser where
  "demo_binding = \<lparr>cu_id = 1, cu_user = demo_user, cu_client = demo_client,
     cu_gen_email = Some demo_alias\<rparr>"

definition empty_table :: ClientUser_table where
  "empty_table = \<lparr>cu_rows = [], cu_last_id = 0\<rparr>"

text \<open>The binding that \<open>get_or_create\<close> creates first, and the table that holds it.\<close>

definition demo_new_binding :: ClientUser where
  "demo_new_binding = \<lparr>cu_id = 1, cu_user = demo_user, cu_client = demo_client,
     cu_gen_email = None\<rparr>"

definition demo_table :: ClientUser_table where
  "demo_table = \<lparr>cu_rows = [demo_new_binding], cu_last_id = 1\<rparr>"

definition demo_s3 :: "string \<Rightarrow> string" where
  "demo_s3 p = ''https://s3.example/'' @ p"

definition demo_md5 :: "string \<Rightarrow> string" where
  "demo_md5 s = ''0123abcd''"

definition demo_kw :: User_kw where
  "demo_kw = \<lparr>kw_email = Some ''ann@example.org'', kw_salt = Some ''s'', kw_password = Some ''p'',
     kw_name = Some ''Ann'', kw_is_admin = None, kw_activated = Some True, kw_plan = None,
     kw_plan_expiration = None, kw_stripe_customer_id = None, kw_stripe_card_token = None,
     kw_stripe_subscription_id = None, kw_profile_picture = None, kw_is_developer = None,
     kw_promo_codes = None\<rparr>"

definition demo_hashpw :: "string \<Rightarrow> string \<Rightarrow> string" where
  "demo_hashpw password salt = salt @ password"

text \<open>
  Random sources: one that always returns the word of \<open>demo_alias\<close>, one that does so
  eleven times and then returns a new word, and one that always returns the suffix of
  the client id of \<open>demo_client\<close>.
\<close>

definition taken_words :: "nat \<Rightarrow> string" where
  "taken_words k = ''a1''"

definition words_free_at_11 :: "nat \<Rightarrow> string" where
  "words_free_at_11 k = (if k < 11 then ''a1'' else ''b2'')"

definition demo_convert_to_id :: "string \<Rightarrow> string" where
  "demo_convert_to_id client_name = ''demo''"

definition taken_strings :: "nat \<Rightarrow> string" where
  "taken_strings k = ''abcde''"

definition demo_code :: AuthorizationCode where
  "demo_code = \<lparr>ac_id = 1, ac_code = ''c0de'', ac_client = demo_client, ac_user = demo_user,
     ac_scope = Some ''name email'', ac_redirect_uri = Some ''https://rp.example/cb''\<rparr>"

definition demo_token :: OauthToken where
  "demo_token = \<lparr>ot_id = 1, ot_access_token = Some ''t0ken'', ot_client = demo_client,
     ot_user = demo_user, ot_scope = Some ''name email'',
     ot_redirect_uri = Some ''https://rp.example/cb''\<rparr>"

definition demo_store :: oauth_store where
  "demo_store = \<lparr>os_clients = [demo_client], os_codes = [(demo_code, 600)], os_tokens = []\<rparr>"

section \<open>Theorems: plan and quota\<close>

text \<open>
  C1, as amended. \<open>can_create_new_email\<close> returns true for a monthly or yearly plan; true
  for a trial plan whose \<open>plan_expiration\<close> is set and strictly after now; and for a free
  plan, or a trial plan whose \<open>plan_expiration\<close> is set and not after now, it returns
  whether the number of the user's generated emails is strictly below
  \<open>MAX_NB_EMAIL_FREE_PLAN\<close>: true at \<open>MAX_NB_EMAIL_FREE_PLAN - 1\<close> and false at
  \<open>MAX_NB_EMAIL_FREE_PLAN\<close>. The cases cover every user whose \<open>plan_expiration\<close> is set
  when the plan is trial, and for each of them the call returns.
\<close>

theorem can_create_new_email_cases:
  "(u_plan u = monthly \<or> u_plan u = yearly \<longrightarrow> can_create_new_email cfg now tbl u = Inr True)
   \<and> (u_plan u = trial \<and> u_plan_expiration u = Some e \<and> now < e
        \<longrightarrow> can_create_new_email cfg now tbl u = Inr True)
   \<and> (u_plan u = free \<or> (u_plan u = trial \<and> u_plan_expiration u = Some e \<and> \<not> now < e)
        \<longrightarrow> can_create_new_email cfg now tbl u
            = Inr (int (count_gen_emails tbl (u_id u)) < MAX_NB_EMAIL_FREE_PLAN cfg))
   \<and> (u_plan u = free \<and> int (count_gen_emails tbl (u_id u)) = MAX_NB_EMAIL_FREE_PLAN cfg - 1
        \<longrightarrow> can_create_new_email cfg now tbl u = Inr True)
   \<and> (u_plan u = free \<and> int (count_gen_emails tbl (u_id u)) = MAX_NB_EMAIL_FREE_PLAN cfg
        \<longrightarrow> can_create_new_email cfg now tbl u = Inr False)
   \<and> ((u_plan u = trial \<longrightarrow> u_plan_expiration u \<noteq> None)
        \<longrightarrow> (\<exists>b. can_create_new_email cfg now tbl u = Inr b))"
  by (auto simp: can_create_new_email_def is_premium_def)

theorem can_create_new_email_cases_witness:
  "can_create_new_email demo_config 0 (demo_gen_emails 2) demo_user = Inr True
   \<and> can_create_new_email demo_config 0 (demo_gen_emails 3) demo_user = Inr False
   \<and> can_create_new_email demo_config 0 (demo_gen_emails 3) (demo_user\<lparr>u_plan := monthly\<rparr>) = Inr True
   \<and> can_create_new_email demo_config 0 (demo_gen_emails 3)
        (demo_user\<lparr>u_plan := trial, u_plan_expiration := Some 5\<rparr>) = Inr True
   \<and> can_create_new_email demo_config 7 (demo_gen_emails 3)
        (demo_user\<lparr>u_plan := trial, u_plan_expiration := Some 5\<rparr>) = Inr False"
  using can_create_new_email_cases [where u = demo_user and cfg = demo_config and now = 0 and tbl = "demo_gen_emails 2"]
    can_create_new_email_cases [where u = demo_user and cfg = demo_config and now = 0 and tbl = "demo_gen_emails 3"]
    can_create_new_email_cases [where u = "demo_user\<lparr>u_plan := monthly\<rparr>" and cfg = demo_config and now = 0 and tbl = "demo_gen_emails 3"]
    can_create_new_email_cases [where u = "demo_user\<lparr>u_plan := trial, u_plan_expiration := Some 5\<rparr>" and e = 5 and cfg = demo_config and now = 0 and tbl = "demo_gen_emails 3"]
    can_create_new_email_cases [where u = "demo_user\<lparr>u_plan := trial, u_plan_expiration := Some 5\<rparr>" and e = 5 and cfg = demo_config and now = 7 and tbl = "demo_gen_emails 3"]
  by (simp add: demo_user_def demo_config_def demo_gen_emails_def count_gen_emails_def upt_rec)

text \<open>
  C1 as stated, for every user, fails for a trial user whose \<open>plan_expiration\<close> is null:
  the comparison with now raises \<open>TypeError\<close>, while the quota (no generated email,
  ceiling 3) would allow the creation.
\<close>

theorem can_create_new_email_null_expiration_counterexample:
  "can_create_new_email demo_config 0 [] (demo_user\<lparr>u_plan := trial, u_plan_expiration := None\<rparr>)
     = Inl TypeError"
  by (simp add: can_create_new_email_def is_premium_def demo_user_def)

text \<open>
  C3, as amended. \<open>should_upgrade\<close> returns true for a free plan and for a trial plan
  whose \<open>plan_expiration\<close> is set and strictly before \<open>arrow.now().shift(weeks=1)\<close>; it
  returns false for a monthly or yearly plan and for a trial plan whose
  \<open>plan_expiration\<close> is set and not before that time. When the shifted time is now plus
  7 days, that is, when the UTC offset of the local zone does not change within the
  week, the test of a trial user is whether \<open>plan_expiration\<close> is strictly before now
  plus 7 days. For a trial user the result is true when \<open>plan_expiration\<close> is 6 days from
  now and false when it is 8 days from now, provided the shifted time is more than 6 and
  at most 8 days after now. For every user whose \<open>plan_expiration\<close> is set when the plan
  is trial, the call returns.
\<close>

theorem should_upgrade_cases:
  "(u_plan u = free \<longrightarrow> should_upgrade week_later u = Inr True)
   \<and> (u_plan u = trial \<and> u_plan_expiration u = Some e \<and> e < week_later
        \<longrightarrow> should_upgrade week_later u = Inr True)
   \<and> (u_plan u = trial \<and> u_plan_expiration u = Some e \<and> \<not> e < week_later
        \<longrightarrow> should_upgrade week_later u = Inr False)
   \<and> (u_plan u = monthly \<or> u_plan u = yearly \<longrightarrow> should_upgrade week_later u = Inr False)
   \<and> (week_later = plus_days 7 now \<and> u_plan u = trial \<and> u_plan_expiration u = Some e
        \<longrightarrow> should_upgrade week_later u = Inr (e < plus_days 7 now))
   \<and> (plus_days 6 now < week_later \<and> u_plan u = trial
          \<and> u_plan_expiration u = Some (plus_days 6 now)
        \<longrightarrow> should_upgrade week_later u = Inr True)
   \<and> (week_later \<le> plus_days 8 now \<and> u_plan u = trial
          \<and> u_plan_expiration u = Some (plus_days 8 now)
        \<longrightarrow> should_upgrade week_later u = Inr False)
   \<and> ((u_plan u = trial \<longrightarrow> u_plan_expiration u \<noteq> None)
        \<longrightarrow> (\<exists>b. should_upgrade week_later u = Inr b))"
  by (auto simp: should_upgrade_def)

theorem should_upgrade_cases_witness:
  "should_upgrade (plus_days 7 0) demo_user = Inr True
   \<and> should_upgrade (plus_days 7 0)
        (demo_user\<lparr>u_plan := trial, u_plan_expiration := Some (plus_days 6 0)\<rparr>) = Inr True
   \<and> should_upgrade (plus_days 7 0)
        (demo_user\<lparr>u_plan := trial, u_plan_expiration := Some (plus_days 8 0)\<rparr>) = Inr False
   \<and> should_upgrade (plus_days 7 0)
        (demo_user\<lparr>u_plan := trial, u_plan_expiration := Some (plus_days 7 0)\<rparr>) = Inr False
   \<and> should_upgrade (plus_days 7 0) (demo_user\<lparr>u_plan := yearly\<rparr>) = Inr False"
  using should_upgrade_cases [where u = demo_user and week_later = "plus_days 7 0" and now = 0]
    should_upgrade_cases [where u = "demo_user\<lparr>u_plan := trial, u_plan_expiration := Some (plus_days 6 0)\<rparr>"
      and week_later = "plus_days 7 0" and now = 0 and e = "plus_days 6 0"]
    should_upgrade_cases [where u = "demo_user\<lparr>u_plan := trial, u_plan_expiration := Some (plus_days 8 0)\<rparr>"
      and week_later = "plus_days 7 0" and now = 0 and e = "plus_days 8 0"]
    should_upgrade_cases [where u = "demo_user\<lparr>u_plan := trial, u_plan_expiration := Some (plus_days 7 0)\<rparr>"
      and week_later = "plus_days 7 0" and now = 0 and e = "plus_days 7 0"]
    should_upgrade_cases [where u = "demo_user\<lparr>u_plan := yearly\<rparr>"
      and week_later = "plus_days 7 0" and now = 0]
  by (simp add: demo_user_def plus_days_def)

text \<open>
  C3 as stated fails twice. For a trial user whose \<open>plan_expiration\<close> is null the call
  raises \<open>TypeError\<close> and returns neither true nor false. And where the clocks of the
  local zone go back one hour within the week, the shifted time is 7 days and one hour
  after now: a trial user whose \<open>plan_expiration\<close> is exactly 7 days after now, which is
  not strictly before now plus 7 days, gets true.
\<close>

theorem should_upgrade_counterexample:
  "should_upgrade (plus_days 7 0) (demo_user\<lparr>u_plan := trial, u_plan_expiration := None\<rparr>)
     = Inl TypeError
   \<and> should_upgrade (plus_days 7 0 + 3600000000)
        (demo_user\<lparr>u_plan := trial, u_plan_expiration := Some (plus_days 7 0)\<rparr>) = Inr True
   \<and> \<not> plus_days 7 0 < plus_days 7 0"
  by (simp add: should_upgrade_def demo_user_def plus_days_def)

section \<open>Theorems: promo codes\<close>

lemma str_split_not_Nil: "str_split sep s \<noteq> []"
  by (induction s) (auto split: list.splits)

lemma str_split_sep_free: "w \<in> set (str_split sep s) \<Longrightarrow> sep \<notin> set w"
proof (induction s arbitrary: w)
  case Nil
  then show ?case by simp
next
  case (Cons c cs)
  show ?case
  proof (cases "c = sep")
    case True
    with Cons show ?thesis by auto
  next
    case False
    obtain v vs where vs: "str_split sep cs = v # vs"
      using str_split_not_Nil [of sep cs] by (cases "str_split sep cs") auto
    with Cons False show ?thesis by auto
  qed
qed

lemma str_split_word: "sep \<notin> set w \<Longrightarrow> str_split sep w = [w]"
  by (induction w) auto

lemma str_split_append: "sep \<notin> set w \<Longrightarrow> str_split sep (w @ sep # s) = w # str_split sep s"
  by (induction w) auto

lemma str_split_join:
  "ws \<noteq> [] \<Longrightarrow> \<forall>w \<in> set ws. sep \<notin> set w \<Longrightarrow> str_split sep (str_join [sep] ws) = ws"
proof (induction "[sep]" ws rule: str_join.induct)
  case 1
  then show ?case by simp
next
  case (2 w)
  then show ?case by (simp add: str_split_word)
next
  case (3 w v ws)
  then show ?case by (simp add: str_split_append)
qed

lemma str_join_snoc_not_Nil: "c \<noteq> [] \<Longrightarrow> str_join sep (ws @ [c]) \<noteq> []"
  by (induction sep ws rule: str_join.induct) auto

lemma get_promo_codes_sep_free: "w \<in> set (get_promo_codes u) \<Longrightarrow> CHR '','' \<notin> set w"
  by (auto simp: get_promo_codes_def split: option.splits if_splits dest: str_split_sep_free)

lemma get_promo_codes_save:
  assumes "c \<noteq> []" and "CHR '','' \<notin> set c"
  shows "get_promo_codes (save_new_promo_code c u) = get_promo_codes u @ [c]"
proof -
  let ?ws = "get_promo_codes u @ [c]"
  have free: "\<forall>w \<in> set ?ws. CHR '','' \<notin> set w"
    using assms(2) get_promo_codes_sep_free by auto
  have "str_join '','' ?ws \<noteq> []"
    using assms(1) by (rule str_join_snoc_not_Nil)
  then have "get_promo_codes (save_new_promo_code c u) = str_split (CHR '','') (str_join '','' ?ws)"
    by (simp add: get_promo_codes_def save_new_promo_code_def)
  also have "\<dots> = ?ws"
    using free by (intro str_split_join) simp_all
  finally show ?thesis .
qed

text \<open>
  C10. For a user whose \<open>promo_codes\<close> is null or empty, \<open>get_promo_codes\<close> is the empty
  list; and for a non-empty promo code \<open>c\<close> without a comma, \<open>get_promo_codes\<close> after
  \<open>save_new_promo_code c\<close> is the list before with \<open>c\<close> appended.
\<close>

theorem promo_codes_round_trip:
  "(u_promo_codes u = None \<or> u_promo_codes u = Some [] \<longrightarrow> get_promo_codes u = [])
   \<and> (c \<noteq> [] \<and> CHR '','' \<notin> set c
        \<longrightarrow> get_promo_codes (save_new_promo_code c u) = get_promo_codes u @ [c])"
  using get_promo_codes_save [of c u] by (auto simp: get_promo_codes_def)

theorem promo_codes_round_trip_witness:
  "get_promo_codes demo_user = []
   \<and> get_promo_codes (demo_user\<lparr>u_promo_codes := Some []\<rparr>) = []
   \<and> get_promo_codes (save_new_promo_code ''SUMMER'' (demo_user\<lparr>u_promo_codes := Some ''A1,B2''\<rparr>))
       = [''A1'', ''B2'', ''SUMMER'']
   \<and> get_promo_codes (save_new_promo_code ''SUMMER'' demo_user) = [''SUMMER'']"
  using promo_codes_round_trip [where u = demo_user and c = "''SUMMER''"]
    promo_codes_round_trip [where u = "demo_user\<lparr>u_promo_codes := Some []\<rparr>" and c = "''SUMMER''"]
    promo_codes_round_trip [where u = "demo_user\<lparr>u_promo_codes := Some ''A1,B2''\<rparr>" and c = "''SUMMER''"]
  by (simp add: demo_user_def get_promo_codes_def)

section \<open>Theorems: default URLs\<close>

text \<open>
  C8. For a user without a \<open>profile_picture_id\<close>, \<open>profile_picture_url\<close> is the gravatar
  URL of the md5 hash of the user's email; for a client without an \<open>icon_id\<close>,
  \<open>get_icon_url\<close> is the static default icon URL under the configured \<open>URL\<close>.
\<close>

theorem default_urls:
  "(u_profile_picture_id u = None
      \<longrightarrow> profile_picture_url md5_hexdigest s3_get_url u
          = ''https://www.gravatar.com/avatar/'' @ md5_hexdigest (u_email u))
   \<and> (c_icon_id c = None
      \<longrightarrow> get_icon_url cfg s3_get_url c = URL cfg @ ''/static/default-icon.svg'')"
  by (simp add: profile_picture_url_def get_icon_url_def u_profile_picture_id_def c_icon_id_def)

theorem default_urls_witness:
  "profile_picture_url demo_md5 demo_s3 demo_user = ''https://www.gravatar.com/avatar/0123abcd''
   \<and> get_icon_url demo_config demo_s3 demo_client = ''https://app.example/static/default-icon.svg''"
  using default_urls [where u = demo_user and c = demo_client and cfg = demo_config
      and md5_hexdigest = demo_md5 and s3_get_url = demo_s3]
  by (simp add: demo_user_def demo_client_def demo_config_def demo_md5_def
      u_profile_picture_id_def c_icon_id_def)

section \<open>Theorems: scope projection\<close>

lemma Scope_value_inj: "Scope_value s = Scope_value t \<longleftrightarrow> s = t"
  by (cases s; cases t) simp_all

lemma add_scope_other: "k \<noteq> Scope_value s \<Longrightarrow> add_scope s3_get_url r s res k = res k"
  by (cases s) (auto split: option.splits)

lemma add_scope_dom: "dom (add_scope s3_get_url r s res) = insert (Scope_value s) (dom res)"
  by (cases s) (auto split: option.splits)

lemma fold_add_scope_dom:
  "dom (fold (add_scope s3_get_url r) scopes res) = dom res \<union> Scope_value ` set scopes"
  by (induction scopes arbitrary: res) (auto simp: add_scope_dom)

lemma fold_add_scope_absent:
  "k \<notin> Scope_value ` set scopes \<Longrightarrow> fold (add_scope s3_get_url r) scopes res k = res k"
  by (induction scopes arbitrary: res) (auto simp: add_scope_other)

text \<open>The value the loop body binds to the key of a scope does not depend on the map.\<close>

lemma add_scope_same:
  "add_scope s3_get_url r s res (Scope_value s) = add_scope s3_get_url r s Map.empty (Scope_value s)"
  by (cases s) (auto split: option.splits)

lemma fold_add_scope_present:
  "s \<in> set scopes \<Longrightarrow>
     fold (add_scope s3_get_url r) scopes res (Scope_value s) = add_scope s3_get_url r s Map.empty (Scope_value s)"
proof (induction scopes arbitrary: res rule: rev_induct)
  case Nil
  then show ?case by simp
next
  case (snoc t scopes)
  show ?case
  proof (cases "t = s")
    case True
    then show ?thesis using add_scope_same [of s3_get_url r s] by simp
  next
    case False
    with snoc show ?thesis by (simp add: add_scope_other Scope_value_inj)
  qed
qed

text \<open>
  C2. The map that \<open>get_user_info\<close> builds over a list of granted scopes always binds
  \<open>id\<close> to the binding's identifier, \<open>client\<close> to the client's name and
  \<open>email_verified\<close> to true, and its keys are these three and one key for each granted
  scope: \<open>name\<close> is the user's name; \<open>avatar_url\<close> is the URL of the profile picture
  when one is set and an explicit null otherwise; \<open>email\<close> is the alias address when the
  binding references an alias and the user's email otherwise. The key of a scope that is
  not granted is absent: for the scopes name and email and a binding with the alias
  \<open>al\<close>, the map is exactly the five entries, with no \<open>avatar_url\<close>. The method itself
  runs on the list that \<open>get_scopes\<close> returns. A key is set when \<open>if_key\<close> finds it
  truthy.
\<close>

theorem get_user_info_projection:
  "user_info_for s3_get_url scopes r ''id'' = Some (PyInt (int (cu_id r)))
   \<and> user_info_for s3_get_url scopes r ''client'' = Some (PyStr (c_name (cu_client r)))
   \<and> user_info_for s3_get_url scopes r ''email_verified'' = Some (PyBool True)
   \<and> dom (user_info_for s3_get_url scopes r)
       = {''id'', ''client'', ''email_verified''} \<union> Scope_value ` set scopes
   \<and> user_info_for s3_get_url scopes r ''name''
       = (if NAME \<in> set scopes then Some (PyStr (u_name (cu_user r))) else None)
   \<and> user_info_for s3_get_url scopes r ''avatar_url''
       = (if AVATAR_URL \<in> set scopes
          then Some (case if_key file_id (u_profile_picture (cu_user r)) of
                       Some f \<Rightarrow> PyStr (get_url s3_get_url f)
                     | None \<Rightarrow> PyNone)
          else None)
   \<and> user_info_for s3_get_url scopes r ''email''
       = (if EMAIL \<in> set scopes
          then Some (case if_key ge_id (cu_gen_email r) of
                       Some g \<Rightarrow> PyStr (ge_email g)
                     | None \<Rightarrow> PyStr (u_email (cu_user r)))
          else None)
   \<and> (cu_gen_email r = Some al \<and> ge_id al \<noteq> 0
        \<longrightarrow> user_info_for s3_get_url [NAME, EMAIL] r
            = [''id'' \<mapsto> PyInt (int (cu_id r)), ''client'' \<mapsto> PyStr (c_name (cu_client r)),
               ''email'' \<mapsto> PyStr (ge_email al), ''email_verified'' \<mapsto> PyBool True,
               ''name'' \<mapsto> PyStr (u_name (cu_user r))]
          \<and> user_info_for s3_get_url [NAME, EMAIL] r ''avatar_url'' = None)
   \<and> get_user_info s3_get_url r = user_info_for s3_get_url (get_scopes (cu_client r)) r"
proof -
  let ?init = "[''id'' \<mapsto> PyInt (int (cu_id r)), ''client'' \<mapsto> PyStr (c_name (cu_client r)),
                ''email_verified'' \<mapsto> PyBool True]"
  have fixed: "user_info_for s3_get_url scopes r k = ?init k" if "k \<notin> Scope_value ` set scopes" for k
    using that by (simp add: user_info_for_def fold_add_scope_absent)
  have no_id: "''id'' \<notin> Scope_value ` set scopes"
    and no_client: "''client'' \<notin> Scope_value ` set scopes"
    and no_ev: "''email_verified'' \<notin> Scope_value ` set scopes"
  proof -
    have "\<And>s. Scope_value s \<noteq> ''id'' \<and> Scope_value s \<noteq> ''client''
            \<and> Scope_value s \<noteq> ''email_verified''"
      subgoal for s by (cases s) simp_all
      done
    then show "''id'' \<notin> Scope_value ` set scopes" "''client'' \<notin> Scope_value ` set scopes"
      "''email_verified'' \<notin> Scope_value ` set scopes"
      by force+
  qed
  have key: "user_info_for s3_get_url scopes r (Scope_value s)
      = (if s \<in> set scopes then add_scope s3_get_url r s Map.empty (Scope_value s) else None)" for s
  proof (cases "s \<in> set scopes")
    case True
    then show ?thesis by (simp add: user_info_for_def fold_add_scope_present)
  next
    case False
    then have "Scope_value s \<notin> Scope_value ` set scopes"
      by (auto simp: Scope_value_inj)
    then have "user_info_for s3_get_url scopes r (Scope_value s) = ?init (Scope_value s)"
      by (rule fixed)
    with False show ?thesis by (cases s) simp_all
  qed
  have c1: "user_info_for s3_get_url scopes r ''id'' = Some (PyInt (int (cu_id r)))"
    using fixed [OF no_id] by simp
  have c2: "user_info_for s3_get_url scopes r ''client'' = Some (PyStr (c_name (cu_client r)))"
    using fixed [OF no_client] by simp
  have c3: "user_info_for s3_get_url scopes r ''email_verified'' = Some (PyBool True)"
    using fixed [OF no_ev] by simp
  have c4: "dom (user_info_for s3_get_url scopes r)
       = {''id'', ''client'', ''email_verified''} \<union> Scope_value ` set scopes"
    by (auto simp: user_info_for_def fold_add_scope_dom)
  have c5: "user_info_for s3_get_url scopes r ''name''
       = (if NAME \<in> set scopes then Some (PyStr (u_name (cu_user r))) else None)"
    using key [of NAME] by simp
  have c6: "user_info_for s3_get_url scopes r ''avatar_url''
       = (if AVATAR_URL \<in> set scopes
          then Some (case if_key file_id (u_profile_picture (cu_user r)) of
                       Some f \<Rightarrow> PyStr (get_url s3_get_url f)
                     | None \<Rightarrow> PyNone)
          else None)"
    using key [of AVATAR_URL] by (simp split: option.splits)
  have c7: "user_info_for s3_get_url scopes r ''email''
       = (if EMAIL \<in> set scopes
          then Some (case if_key ge_id (cu_gen_email r) of
                       Some g \<Rightarrow> PyStr (ge_email g)
                     | None \<Rightarrow> PyStr (u_email (cu_user r)))
          else None)"
    using key [of EMAIL] by (simp split: option.splits)
  have c8: "user_info_for s3_get_url [NAME, EMAIL] r
            = [''id'' \<mapsto> PyInt (int (cu_id r)), ''client'' \<mapsto> PyStr (c_name (cu_client r)),
               ''email'' \<mapsto> PyStr (ge_email al), ''email_verified'' \<mapsto> PyBool True,
               ''name'' \<mapsto> PyStr (u_name (cu_user r))]
          \<and> user_info_for s3_get_url [NAME, EMAIL] r ''avatar_url'' = None"
    if "cu_gen_email r = Some al" "ge_id al \<noteq> 0"
    using that by (auto simp: user_info_for_def fun_eq_iff)
  have c9: "get_user_info s3_get_url r = user_info_for s3_get_url (get_scopes (cu_client r)) r"
    by (simp add: get_user_info_def)
  from c1 c2 c3 c4 c5 c6 c7 c8 c9 show ?thesis by blast
qed

theorem get_user_info_projection_witness:
  "user_info_for demo_s3 [NAME, EMAIL] demo_binding
     = [''id'' \<mapsto> PyInt 1, ''client'' \<mapsto> PyStr ''Demo'', ''email'' \<mapsto> PyStr ''a1@domain'',
        ''email_verified'' \<mapsto> PyBool True, ''name'' \<mapsto> PyStr ''Ann'']
   \<and> user_info_for demo_s3 [NAME, EMAIL] demo_binding ''avatar_url'' = None
   \<and> get_user_info demo_s3 demo_binding ''avatar_url'' = Some PyNone
   \<and> get_user_info demo_s3 demo_binding ''email'' = Some (PyStr ''a1@domain'')"
  using get_user_info_projection [where r = demo_binding and al = demo_alias and s3_get_url = demo_s3
      and scopes = "[NAME, EMAIL, AVATAR_URL]"]
  by (simp add: demo_binding_def demo_alias_def demo_user_def demo_client_def get_scopes_def)

text \<open>
  C9. When the email scope is among the granted scopes, the value of the key \<open>email\<close> in
  the map of \<open>get_user_info\<close> is what \<open>get_email\<close> returns; the scopes of \<open>get_scopes\<close>
  always contain it. Both are the user's email when \<open>gen_email_id\<close> is null and the
  alias address when it is set.
\<close>

theorem get_email_agrees:
  "(EMAIL \<in> set scopes \<longrightarrow> user_info_for s3_get_url scopes r ''email'' = Some (PyStr (get_email r)))
   \<and> get_user_info s3_get_url r ''email'' = Some (PyStr (get_email r))
   \<and> (cu_gen_email_id r = None \<longrightarrow> get_email r = u_email (cu_user r))
   \<and> (cu_gen_email r = Some g \<and> ge_id g \<noteq> 0 \<longrightarrow> get_email r = ge_email g)"
proof -
  have "user_info_for s3_get_url scopes r ''email'' = Some (PyStr (get_email r))" if "EMAIL \<in> set scopes"
    for scopes
    using that fold_add_scope_present [of EMAIL scopes s3_get_url r]
    by (simp add: user_info_for_def get_email_def split: option.splits)
  then show ?thesis
    by (auto simp: get_user_info_def get_scopes_def get_email_def cu_gen_email_id_def)
qed

theorem get_email_agrees_witness:
  "user_info_for demo_s3 [EMAIL] demo_binding ''email'' = Some (PyStr ''a1@domain'')
   \<and> get_email demo_binding = ''a1@domain''
   \<and> get_email (demo_binding\<lparr>cu_gen_email := None\<rparr>) = ''ann@example.org''
   \<and> get_user_info demo_s3 (demo_binding\<lparr>cu_gen_email := None\<rparr>) ''email''
       = Some (PyStr ''ann@example.org'')"
  using get_email_agrees [where r = demo_binding and g = demo_alias and s3_get_url = demo_s3
      and scopes = "[EMAIL]"]
    get_email_agrees [where r = "demo_binding\<lparr>cu_gen_email := None\<rparr>" and s3_get_url = demo_s3
      and scopes = "[EMAIL]"]
  by (simp add: demo_binding_def demo_alias_def demo_user_def cu_gen_email_id_def)

section \<open>Theorems: plan expiration\<close>

lemma User_create_plan:
  assumes "User_create tbl new_id kw = Inr (u, tbl')"
  shows "u_plan u = (case kw_plan kw of None \<Rightarrow> free | Some pl \<Rightarrow> pl)"
    and "u_plan_expiration u = kw_plan_expiration kw"
  using assms
  by (auto simp: User_create_def Let_def split: option.splits if_splits)

text \<open>
  C7, as amended. Creating a user stores the plan it is given (\<open>free\<close> when none is
  given) and the \<open>plan_expiration\<close> it is given, whatever they are; a user created with
  neither has the plan \<open>free\<close> and a null \<open>plan_expiration\<close>, so \<open>plan_expiration\<close> is
  set if and only if the plan is trial; and \<open>set_password\<close> and \<open>save_new_promo_code\<close>
  keep that property.
\<close>

theorem plan_expiration_invariant:
  "(User_create tbl new_id kw = Inr (u, tbl')
      \<longrightarrow> u_plan u = (case kw_plan kw of None \<Rightarrow> free | Some pl \<Rightarrow> pl)
        \<and> u_plan_expiration u = kw_plan_expiration kw)
   \<and> (User_create tbl new_id kw = Inr (u, tbl') \<and> kw_plan kw = None \<and> kw_plan_expiration kw = None
      \<longrightarrow> plan_expiration_iff_trial u)
   \<and> (plan_expiration_iff_trial v
      \<longrightarrow> plan_expiration_iff_trial (set_password hashpw gensalt password v)
        \<and> plan_expiration_iff_trial (save_new_promo_code promo_code v))"
  using User_create_plan [of tbl new_id kw u tbl']
  by (auto simp: plan_expiration_iff_trial_def set_password_def save_new_promo_code_def)

theorem plan_expiration_invariant_witness:
  "User_create [] 1 demo_kw = Inr (demo_user, [demo_user])
   \<and> plan_expiration_iff_trial demo_user
   \<and> plan_expiration_iff_trial (set_password demo_hashpw ''salt'' ''pw'' demo_user)
   \<and> plan_expiration_iff_trial (save_new_promo_code ''SUMMER'' demo_user)"
proof -
  have c: "User_create [] 1 demo_kw = Inr (demo_user, [demo_user])"
    by (simp add: User_create_def demo_kw_def demo_user_def unique_ok_def Let_def)
  have k: "kw_plan demo_kw = None \<and> kw_plan_expiration demo_kw = None"
    by (simp add: demo_kw_def)
  show ?thesis
    using c k plan_expiration_invariant [where tbl = "[]" and new_id = 1 and kw = demo_kw
        and u = demo_user and tbl' = "[demo_user]" and v = demo_user]
    by simp
qed

text \<open>
  C7 as stated fails: creating a user with the plan \<open>trial\<close> and no \<open>plan_expiration\<close>
  succeeds and gives a trial user whose \<open>plan_expiration\<close> is null.
\<close>

theorem plan_expiration_invariant_counterexample:
  "User_create [] 1 (demo_kw\<lparr>kw_plan := Some trial\<rparr>)
     = Inr (demo_user\<lparr>u_plan := trial\<rparr>, [demo_user\<lparr>u_plan := trial\<rparr>])
   \<and> \<not> plan_expiration_iff_trial (demo_user\<lparr>u_plan := trial\<rparr>)"
  by (simp add: User_create_def demo_kw_def demo_user_def unique_ok_def Let_def
      plan_expiration_iff_trial_def)

section \<open>Theorems: consent bindings\<close>

lemma find_None_list_all: "find P xs = None \<longleftrightarrow> list_all (\<lambda>x. \<not> P x) xs"
  by (induction xs) auto

lemma create_keeps_one_binding:
  "one_binding_per_pair tbl \<Longrightarrow> ClientUser_create tbl user client gen_email = Inr (r, tbl')
     \<Longrightarrow> one_binding_per_pair tbl'"
  by (fastforce simp: one_binding_per_pair_def ClientUser_create_def Let_def cu_user_id_def
      cu_client_id_def list_all_iff split: if_splits)

lemma after_keeps_one_binding:
  "one_binding_per_pair tbl \<Longrightarrow> ClientUser_get_or_create_after r0 tbl user client = Inr (r, tbl')
     \<Longrightarrow> one_binding_per_pair tbl'"
  by (auto simp: ClientUser_get_or_create_after_def split: option.splits
      dest: create_keeps_one_binding)

lemma get_or_create_keeps_one_binding:
  "one_binding_per_pair tbl \<Longrightarrow> ClientUser_get_or_create tbl user client = Inr (r, tbl')
     \<Longrightarrow> one_binding_per_pair tbl'"
  unfolding ClientUser_get_or_create_def by (rule after_keeps_one_binding)

lemma delete_keeps_one_binding:
  "one_binding_per_pair tbl \<Longrightarrow> one_binding_per_pair (ClientUser_delete tbl obj_id)"
  by (simp add: one_binding_per_pair_def ClientUser_delete_def distinct_map_filter)

lemma apply_op_keeps_one_binding:
  "one_binding_per_pair tbl \<Longrightarrow> one_binding_per_pair (apply_op tbl op)"
  by (cases op)
    (auto split: sum.splits
      dest: create_keeps_one_binding get_or_create_keeps_one_binding after_keeps_one_binding
      intro: delete_keeps_one_binding)

lemma foldl_keeps_one_binding:
  "one_binding_per_pair tbl \<Longrightarrow> one_binding_per_pair (foldl apply_op tbl ops)"
  by (induction ops arbitrary: tbl) (auto simp: apply_op_keeps_one_binding)

lemma run_ops_one_binding: "one_binding_per_pair (run_ops ops)"
proof -
  have "one_binding_per_pair \<lparr>cu_rows = [], cu_last_id = 0\<rparr>"
    by (simp add: one_binding_per_pair_def)
  then show ?thesis
    unfolding run_ops_def by (rule foldl_keeps_one_binding)
qed

lemma distinct_map_filter_le1:
  "distinct (map f xs) \<Longrightarrow> length (filter (\<lambda>x. f x = k) xs) \<le> Suc 0"
proof (induction xs)
  case Nil
  then show ?case by simp
next
  case (Cons x xs)
  show ?case
  proof (cases "f x = k")
    case True
    from Cons.prems have "f x \<notin> f ` set xs"
      by simp
    with True have "\<forall>y \<in> set xs. f y \<noteq> k"
      by blast
    then have "filter (\<lambda>x. f x = k) xs = []"
      by (simp add: filter_empty_conv)
    with True show ?thesis by simp
  next
    case False
    with Cons show ?thesis by simp
  qed
qed

lemma one_binding_count:
  assumes "one_binding_per_pair tbl"
  shows "length (filter (\<lambda>r. cu_user_id r = uid \<and> cu_client_id r = cid) (cu_rows tbl)) \<le> 1"
proof -
  have "length (filter (\<lambda>r. (cu_user_id r, cu_client_id r) = (uid, cid)) (cu_rows tbl)) \<le> Suc 0"
    using assms unfolding one_binding_per_pair_def by (rule distinct_map_filter_le1)
  then show ?thesis by simp
qed

text \<open>The lookup finds the one row of the pair, whatever else the row holds.\<close>

lemma get_by_existing:
  assumes inv: "one_binding_per_pair tbl"
    and row: "row \<in> set (cu_rows tbl)" "cu_user_id row = uid" "cu_client_id row = cid"
  shows "ClientUser_get_by tbl uid cid = Some row"
proof -
  let ?P = "\<lambda>r. cu_user_id r = uid \<and> cu_client_id r = cid"
  from row have "\<not> list_all (\<lambda>x. \<not> ?P x) (cu_rows tbl)"
    by (auto simp: list_all_iff)
  then obtain y where y: "find ?P (cu_rows tbl) = Some y"
    using find_None_list_all [of ?P "cu_rows tbl"] by (cases "find ?P (cu_rows tbl)") auto
  then have "y \<in> set (cu_rows tbl)" and "?P y"
    by (auto simp: find_Some_iff)
  moreover from inv have "inj_on (\<lambda>r. (cu_user_id r, cu_client_id r)) (set (cu_rows tbl))"
    by (simp add: one_binding_per_pair_def distinct_map)
  ultimately have "y = row"
    using row by (auto dest: inj_onD)
  with y show ?thesis by (simp add: ClientUser_get_by_def)
qed

lemma get_or_create_existing:
  assumes "one_binding_per_pair tbl" and "row \<in> set (cu_rows tbl)"
    and "cu_user_id row = u_id user" and "cu_client_id row = c_id client"
  shows "ClientUser_get_or_create tbl user client = Inr (row, tbl)"
  using get_by_existing [OF assms]
  by (simp add: ClientUser_get_or_create_def ClientUser_get_or_create_after_def)

lemma create_missing:
  assumes "ClientUser_get_by tbl (u_id user) (c_id client) = None"
  shows "ClientUser_create tbl user client gen_email
    = Inr (\<lparr>cu_id = Suc (cu_last_id tbl), cu_user = user, cu_client = client,
             cu_gen_email = gen_email\<rparr>,
           \<lparr>cu_rows = cu_rows tbl
              @ [\<lparr>cu_id = Suc (cu_last_id tbl), cu_user = user, cu_client = client,
                   cu_gen_email = gen_email\<rparr>],
            cu_last_id = Suc (cu_last_id tbl)\<rparr>)"
  using assms
  by (simp add: ClientUser_get_by_def ClientUser_create_def find_None_list_all Let_def)

lemma find_append_new:
  "find P xs = None \<Longrightarrow> P r \<Longrightarrow> find P (xs @ [r]) = Some r"
  by (induction xs) (auto split: if_splits)

lemma get_by_after_create:
  assumes "ClientUser_get_by tbl (u_id user) (c_id client) = None"
  shows "ClientUser_get_by
      \<lparr>cu_rows = cu_rows tbl
         @ [\<lparr>cu_id = Suc (cu_last_id tbl), cu_user = user, cu_client = client,
              cu_gen_email = gen_email\<rparr>],
       cu_last_id = Suc (cu_last_id tbl)\<rparr> (u_id user) (c_id client)
    = Some \<lparr>cu_id = Suc (cu_last_id tbl), cu_user = user, cu_client = client,
             cu_gen_email = gen_email\<rparr>"
  using assms
  by (simp add: ClientUser_get_by_def find_append_new cu_user_id_def cu_client_id_def)

lemma create_existing:
  assumes "ClientUser_get_by tbl (u_id user) (c_id client) = Some row"
  shows "ClientUser_create tbl user client gen_email = Inl IntegrityError"
proof -
  from assms have "\<not> list_all (\<lambda>r. \<not> (cu_user_id r = u_id user \<and> cu_client_id r = c_id client))
      (cu_rows tbl)"
    using find_None_list_all
      [of "\<lambda>r. cu_user_id r = u_id user \<and> cu_client_id r = c_id client" "cu_rows tbl"]
    by (simp add: ClientUser_get_by_def)
  then show ?thesis by (simp add: ClientUser_create_def)
qed

text \<open>
  C6, as amended. After any sequence of creations, \<open>get_or_create\<close> calls, second steps
  of \<open>get_or_create\<close> calls whose lookup ran earlier, and deletions from the empty
  table, there is at most one binding for each pair of a user and a client. In such a
  table a \<open>get_or_create\<close> for a pair that has a binding returns that very binding and
  leaves the table as it is. For a pair without a binding, in any table,
  \<open>get_or_create\<close> inserts a binding without alias under the next key, and a second
  \<open>get_or_create\<close> after it returns the same binding and inserts nothing. But when two
  creators both look up before either inserts, the first gets the new binding and the
  insert of the second raises \<open>IntegrityError\<close>: the second creator is not given the
  existing binding.
\<close>

theorem binding_get_or_create:
  "length (filter (\<lambda>r. cu_user_id r = uid \<and> cu_client_id r = cid) (cu_rows (run_ops ops))) \<le> 1
   \<and> (row \<in> set (cu_rows (run_ops ops)) \<and> cu_user_id row = u_id user
        \<and> cu_client_id row = c_id client
      \<longrightarrow> ClientUser_get_or_create (run_ops ops) user client = Inr (row, run_ops ops))
   \<and> (ClientUser_get_by tbl (u_id user) (c_id client) = None
      \<longrightarrow> ClientUser_get_or_create tbl user client
            = Inr (\<lparr>cu_id = Suc (cu_last_id tbl), cu_user = user, cu_client = client,
                     cu_gen_email = None\<rparr>,
                   \<lparr>cu_rows = cu_rows tbl
                      @ [\<lparr>cu_id = Suc (cu_last_id tbl), cu_user = user, cu_client = client,
                           cu_gen_email = None\<rparr>],
                    cu_last_id = Suc (cu_last_id tbl)\<rparr>)
        \<and> ClientUser_get_or_create
              \<lparr>cu_rows = cu_rows tbl
                 @ [\<lparr>cu_id = Suc (cu_last_id tbl), cu_user = user, cu_client = client,
                      cu_gen_email = None\<rparr>],
               cu_last_id = Suc (cu_last_id tbl)\<rparr> user client
            = Inr (\<lparr>cu_id = Suc (cu_last_id tbl), cu_user = user, cu_client = client,
                     cu_gen_email = None\<rparr>,
                   \<lparr>cu_rows = cu_rows tbl
                      @ [\<lparr>cu_id = Suc (cu_last_id tbl), cu_user = user, cu_client = client,
                           cu_gen_email = None\<rparr>],
                    cu_last_id = Suc (cu_last_id tbl)\<rparr>)
        \<and> get_or_create_race tbl user client
            = (Inr (\<lparr>cu_id = Suc (cu_last_id tbl), cu_user = user, cu_client = client,
                      cu_gen_email = None\<rparr>,
                    \<lparr>cu_rows = cu_rows tbl
                       @ [\<lparr>cu_id = Suc (cu_last_id tbl), cu_user = user, cu_client = client,
                            cu_gen_email = None\<rparr>],
                     cu_last_id = Suc (cu_last_id tbl)\<rparr>),
               Inl IntegrityError))"
proof -
  let ?new = "\<lparr>cu_id = Suc (cu_last_id tbl), cu_user = user, cu_client = client,
                cu_gen_email = None\<rparr>"
  let ?tbl' = "\<lparr>cu_rows = cu_rows tbl @ [?new], cu_last_id = Suc (cu_last_id tbl)\<rparr>"
  have c1: "length (filter (\<lambda>r. cu_user_id r = uid \<and> cu_client_id r = cid)
      (cu_rows (run_ops ops))) \<le> 1"
    using run_ops_one_binding by (rule one_binding_count)
  have c2: "ClientUser_get_or_create (run_ops ops) user client = Inr (row, run_ops ops)"
    if "row \<in> set (cu_rows (run_ops ops))" "cu_user_id row = u_id user"
      "cu_client_id row = c_id client"
    using run_ops_one_binding that by (rule get_or_create_existing)
  have c3: "ClientUser_get_or_create tbl user client = Inr (?new, ?tbl')"
    and c4: "ClientUser_get_or_create ?tbl' user client = Inr (?new, ?tbl')"
    and c5: "get_or_create_race tbl user client = (Inr (?new, ?tbl'), Inl IntegrityError)"
    if none: "ClientUser_get_by tbl (u_id user) (c_id client) = None"
  proof -
    have cr: "ClientUser_create tbl user client None = Inr (?new, ?tbl')"
      using none by (rule create_missing)
    have found: "ClientUser_get_by ?tbl' (u_id user) (c_id client) = Some ?new"
      using none by (rule get_by_after_create)
    have dup: "ClientUser_create ?tbl' user client None = Inl IntegrityError"
      using found by (rule create_existing)
    show "ClientUser_get_or_create tbl user client = Inr (?new, ?tbl')"
      using none cr by (simp add: ClientUser_get_or_create_def ClientUser_get_or_create_after_def)
    show "ClientUser_get_or_create ?tbl' user client = Inr (?new, ?tbl')"
      using found by (simp add: ClientUser_get_or_create_def ClientUser_get_or_create_after_def)
    show "get_or_create_race tbl user client = (Inr (?new, ?tbl'), Inl IntegrityError)"
      using none cr dup
      by (simp add: get_or_create_race_def ClientUser_get_or_create_after_def Let_def)
  qed
  from c1 c2 c3 c4 c5 show ?thesis by blast
qed

theorem binding_get_or_create_witness:
  "run_ops [Create demo_user demo_client (Some demo_alias)]
     = \<lparr>cu_rows = [demo_binding], cu_last_id = 1\<rparr>
   \<and> ClientUser_get_or_create \<lparr>cu_rows = [demo_binding], cu_last_id = 1\<rparr> demo_user demo_client
       = Inr (demo_binding, \<lparr>cu_rows = [demo_binding], cu_last_id = 1\<rparr>)
   \<and> ClientUser_get_or_create empty_table demo_user demo_client = Inr (demo_new_binding, demo_table)
   \<and> ClientUser_get_or_create demo_table demo_user demo_client = Inr (demo_new_binding, demo_table)
   \<and> get_or_create_race empty_table demo_user demo_client
       = (Inr (demo_new_binding, demo_table), Inl IntegrityError)"
proof -
  have run: "run_ops [Create demo_user demo_client (Some demo_alias)]
      = \<lparr>cu_rows = [demo_binding], cu_last_id = 1\<rparr>"
    by (simp add: run_ops_def ClientUser_create_def demo_binding_def Let_def)
  have none: "ClientUser_get_by empty_table (u_id demo_user) (c_id demo_client) = None"
    by (simp add: ClientUser_get_by_def empty_table_def)
  show ?thesis
    using run none
      binding_get_or_create [where ops = "[Create demo_user demo_client (Some demo_alias)]"
        and row = demo_binding and user = demo_user and client = demo_client
        and tbl = empty_table]
    by (simp add: demo_binding_def demo_new_binding_def demo_table_def empty_table_def
        cu_user_id_def cu_client_id_def)
qed

text \<open>
  C6 as stated fails for two creators that run at the same time: when both look up in
  the empty table before either inserts, the first gets the new binding with the key 1
  and the second gets \<open>IntegrityError\<close> from its insert, not the binding of the first.
\<close>

theorem binding_race_counterexample:
  "get_or_create_race empty_table demo_user demo_client
     = (Inr (demo_new_binding, demo_table), Inl IntegrityError)"
  by (simp add: get_or_create_race_def ClientUser_get_or_create_after_def ClientUser_get_by_def
      ClientUser_create_def empty_table_def demo_new_binding_def demo_table_def Let_def
      cu_user_id_def cu_client_id_def)

section \<open>Theorems: identifier generation\<close>

lemma generate_email_first_free:
  "(\<forall>j < k. GenEmail_get_by tbl (random_words (n + j) @ ''@'' @ EMAIL_DOMAIN cfg) \<noteq> None)
   \<Longrightarrow> GenEmail_get_by tbl (random_words (n + k) @ ''@'' @ EMAIL_DOMAIN cfg) = None
   \<Longrightarrow> k < depth
   \<Longrightarrow> generate_email cfg random_words tbl depth n
       = Inr (random_words (n + k) @ ''@'' @ EMAIL_DOMAIN cfg)"
proof (induction k arbitrary: depth n)
  case 0
  then obtain d where "depth = Suc d"
    by (cases depth) auto
  with 0 show ?case by (simp add: Let_def)
next
  case (Suc k)
  from Suc.prems(3) obtain d where d: "depth = Suc d" "k < d"
    by (cases depth) auto
  from Suc.prems(1) have "GenEmail_get_by tbl (random_words (n + 0) @ ''@'' @ EMAIL_DOMAIN cfg) \<noteq> None"
    by blast
  then have here: "GenEmail_get_by tbl (random_words n @ ''@'' @ EMAIL_DOMAIN cfg) \<noteq> None"
    by simp
  have "\<forall>j < k. GenEmail_get_by tbl (random_words (Suc n + j) @ ''@'' @ EMAIL_DOMAIN cfg) \<noteq> None"
  proof (intro allI impI)
    fix j assume "j < k"
    then have "Suc j < Suc k" by simp
    with Suc.prems(1) have "GenEmail_get_by tbl (random_words (n + Suc j) @ ''@'' @ EMAIL_DOMAIN cfg) \<noteq> None"
      by blast
    then show "GenEmail_get_by tbl (random_words (Suc n + j) @ ''@'' @ EMAIL_DOMAIN cfg) \<noteq> None"
      by simp
  qed
  moreover have "GenEmail_get_by tbl (random_words (Suc n + k) @ ''@'' @ EMAIL_DOMAIN cfg) = None"
    using Suc.prems(2) by simp
  ultimately have "generate_email cfg random_words tbl d (Suc n)
      = Inr (random_words (Suc n + k) @ ''@'' @ EMAIL_DOMAIN cfg)"
    using d(2) by (rule Suc.IH)
  moreover from here obtain g where "GenEmail_get_by tbl (random_words n @ ''@'' @ EMAIL_DOMAIN cfg) = Some g"
    by auto
  ultimately show ?case using d(1) by (simp add: Let_def)
qed

lemma generate_email_limit:
  "(\<forall>j < depth. GenEmail_get_by tbl (random_words (n + j) @ ''@'' @ EMAIL_DOMAIN cfg) \<noteq> None)
   \<Longrightarrow> generate_email cfg random_words tbl depth n = Inl RecursionError"
proof (induction depth arbitrary: n)
  case 0
  show ?case by simp
next
  case (Suc depth)
  from Suc.prems have "GenEmail_get_by tbl (random_words (n + 0) @ ''@'' @ EMAIL_DOMAIN cfg) \<noteq> None"
    by blast
  then have here: "GenEmail_get_by tbl (random_words n @ ''@'' @ EMAIL_DOMAIN cfg) \<noteq> None"
    by simp
  have "\<forall>j < depth. GenEmail_get_by tbl (random_words (Suc n + j) @ ''@'' @ EMAIL_DOMAIN cfg) \<noteq> None"
  proof (intro allI impI)
    fix j assume "j < depth"
    then have "Suc j < Suc depth" by simp
    with Suc.prems have "GenEmail_get_by tbl (random_words (n + Suc j) @ ''@'' @ EMAIL_DOMAIN cfg) \<noteq> None"
      by blast
    then show "GenEmail_get_by tbl (random_words (Suc n + j) @ ''@'' @ EMAIL_DOMAIN cfg) \<noteq> None"
      by simp
  qed
  then have "generate_email cfg random_words tbl depth (Suc n) = Inl RecursionError"
    by (rule Suc.IH)
  with here show ?case by (simp add: Let_def)
qed

lemma generate_email_result:
  "(generate_email cfg random_words tbl depth n = Inl err \<longrightarrow> err = RecursionError)
   \<and> (generate_email cfg random_words tbl depth n = Inr y \<longrightarrow> GenEmail_get_by tbl y = None)"
  by (induction depth arbitrary: n) (auto simp: Let_def split: if_splits)

lemma generate_oauth_client_id_first_free:
  "(\<forall>j < k. Client_get_by tbl (convert_to_id client_name @ ''-'' @ random_string (n + j)) \<noteq> None)
   \<Longrightarrow> Client_get_by tbl (convert_to_id client_name @ ''-'' @ random_string (n + k)) = None
   \<Longrightarrow> k < depth
   \<Longrightarrow> generate_oauth_client_id convert_to_id random_string tbl client_name depth n
       = Inr (convert_to_id client_name @ ''-'' @ random_string (n + k))"
proof (induction k arbitrary: depth n)
  case 0
  then obtain d where "depth = Suc d"
    by (cases depth) auto
  with 0 show ?case by (simp add: Let_def)
next
  case (Suc k)
  from Suc.prems(3) obtain d where d: "depth = Suc d" "k < d"
    by (cases depth) auto
  from Suc.prems(1) have "Client_get_by tbl (convert_to_id client_name @ ''-'' @ random_string (n + 0)) \<noteq> None"
    by blast
  then have here: "Client_get_by tbl (convert_to_id client_name @ ''-'' @ random_string n) \<noteq> None"
    by simp
  have "\<forall>j < k. Client_get_by tbl (convert_to_id client_name @ ''-'' @ random_string (Suc n + j)) \<noteq> None"
  proof (intro allI impI)
    fix j assume "j < k"
    then have "Suc j < Suc k" by simp
    with Suc.prems(1) have "Client_get_by tbl (convert_to_id client_name @ ''-'' @ random_string (n + Suc j)) \<noteq> None"
      by blast
    then show "Client_get_by tbl (convert_to_id client_name @ ''-'' @ random_string (Suc n + j)) \<noteq> None"
      by simp
  qed
  moreover have "Client_get_by tbl (convert_to_id client_name @ ''-'' @ random_string (Suc n + k)) = None"
    using Suc.prems(2) by simp
  ultimately have "generate_oauth_client_id convert_to_id random_string tbl client_name d (Suc n)
      = Inr (convert_to_id client_name @ ''-'' @ random_string (Suc n + k))"
    using d(2) by (rule Suc.IH)
  moreover from here obtain g where "Client_get_by tbl (convert_to_id client_name @ ''-'' @ random_string n) = Some g"
    by auto
  ultimately show ?case using d(1) by (simp add: Let_def)
qed

lemma generate_oauth_client_id_limit:
  "(\<forall>j < depth. Client_get_by tbl (convert_to_id client_name @ ''-'' @ random_string (n + j)) \<noteq> None)
   \<Longrightarrow> generate_oauth_client_id convert_to_id random_string tbl client_name depth n = Inl RecursionError"
proof (induction depth arbitrary: n)
  case 0
  show ?case by simp
next
  case (Suc depth)
  from Suc.prems have "Client_get_by tbl (convert_to_id client_name @ ''-'' @ random_string (n + 0)) \<noteq> None"
    by blast
  then have here: "Client_get_by tbl (convert_to_id client_name @ ''-'' @ random_string n) \<noteq> None"
    by simp
  have "\<forall>j < depth. Client_get_by tbl (convert_to_id client_name @ ''-'' @ random_string (Suc n + j)) \<noteq> None"
  proof (intro allI impI)
    fix j assume "j < depth"
    then have "Suc j < Suc depth" by simp
    with Suc.prems have "Client_get_by tbl (convert_to_id client_name @ ''-'' @ random_string (n + Suc j)) \<noteq> None"
      by blast
    then show "Client_get_by tbl (convert_to_id client_name @ ''-'' @ random_string (Suc n + j)) \<noteq> None"
      by simp
  qed
  then have "generate_oauth_client_id convert_to_id random_string tbl client_name depth (Suc n) = Inl RecursionError"
    by (rule Suc.IH)
  with here show ?case by (simp add: Let_def)
qed

lemma generate_oauth_client_id_result:
  "(generate_oauth_client_id convert_to_id random_string tbl client_name depth n = Inl err \<longrightarrow> err = RecursionError)
   \<and> (generate_oauth_client_id convert_to_id random_string tbl client_name depth n = Inr y \<longrightarrow> Client_get_by tbl y = None)"
  by (induction depth arbitrary: n) (auto simp: Let_def split: if_splits)

text \<open>
  C5, as amended. \<open>generate_email\<close> and \<open>generate_oauth_client_id\<close> have no cap on the
  retries and no exhaustion error of their own: they call themselves again on every
  collision and are bounded only by the recursion limit of the interpreter. When the
  candidates collide \<open>k\<close> times and the next one is free, and \<open>k\<close> nested calls are
  within the limit, the call returns that candidate; when every candidate within the
  limit collides, the call ends with the interpreter's \<open>RecursionError\<close>; and no other
  error comes out of either function.
\<close>

theorem generation_bounded_by_recursion_limit:
  "((\<forall>j < k. GenEmail_get_by tbl (random_words (n + j) @ ''@'' @ EMAIL_DOMAIN cfg) \<noteq> None)
      \<and> GenEmail_get_by tbl (random_words (n + k) @ ''@'' @ EMAIL_DOMAIN cfg) = None \<and> k < depth
     \<longrightarrow> generate_email cfg random_words tbl depth n
         = Inr (random_words (n + k) @ ''@'' @ EMAIL_DOMAIN cfg))
   \<and> ((\<forall>j < depth. GenEmail_get_by tbl (random_words (n + j) @ ''@'' @ EMAIL_DOMAIN cfg) \<noteq> None)
     \<longrightarrow> generate_email cfg random_words tbl depth n = Inl RecursionError)
   \<and> (generate_email cfg random_words tbl depth n = Inl err \<longrightarrow> err = RecursionError)
   \<and> ((\<forall>j < k. Client_get_by clients (convert_to_id client_name @ ''-'' @ random_string (n + j)) \<noteq> None)
      \<and> Client_get_by clients (convert_to_id client_name @ ''-'' @ random_string (n + k)) = None
      \<and> k < depth
     \<longrightarrow> generate_oauth_client_id convert_to_id random_string clients client_name depth n
         = Inr (convert_to_id client_name @ ''-'' @ random_string (n + k)))
   \<and> ((\<forall>j < depth. Client_get_by clients (convert_to_id client_name @ ''-'' @ random_string (n + j)) \<noteq> None)
     \<longrightarrow> generate_oauth_client_id convert_to_id random_string clients client_name depth n
         = Inl RecursionError)
   \<and> (generate_oauth_client_id convert_to_id random_string clients client_name depth n = Inl err
     \<longrightarrow> err = RecursionError)"
  using generate_email_first_free [of k tbl random_words n cfg depth]
    generate_email_limit [of depth tbl random_words n cfg]
    generate_email_result [of cfg random_words tbl depth n err]
    generate_oauth_client_id_first_free [of k clients convert_to_id client_name random_string n depth]
    generate_oauth_client_id_limit [of depth clients convert_to_id client_name random_string n]
    generate_oauth_client_id_result [of convert_to_id random_string clients client_name depth n err]
  by blast

theorem generation_bounded_by_recursion_limit_witness:
  "generate_email demo_config words_free_at_11 [demo_alias] 1000 0 = Inr ''b2@domain''
   \<and> generate_email demo_config taken_words [demo_alias] 1000 0 = Inl RecursionError
   \<and> generate_oauth_client_id demo_convert_to_id taken_strings [demo_client] ''Demo'' 1000 0
       = Inl RecursionError
   \<and> generate_oauth_client_id demo_convert_to_id taken_strings [] ''Demo'' 1000 0
       = Inr ''demo-abcde''"
  using generation_bounded_by_recursion_limit [where cfg = demo_config
      and random_words = words_free_at_11 and tbl = "[demo_alias]" and n = 0 and k = 11
      and depth = 1000
      and convert_to_id = demo_convert_to_id and random_string = taken_strings
      and clients = "[demo_client]" and client_name = "''Demo''"]
    generation_bounded_by_recursion_limit [where cfg = demo_config
      and random_words = taken_words and tbl = "[demo_alias]" and n = 0 and k = 0
      and depth = 1000
      and convert_to_id = demo_convert_to_id and random_string = taken_strings
      and clients = "[]" and client_name = "''Demo''"]
  by (simp add: demo_config_def words_free_at_11_def taken_words_def demo_alias_def
      demo_client_def demo_convert_to_id_def taken_strings_def GenEmail_get_by_def Client_get_by_def)

text \<open>
  C5 as stated fails: with a recursion limit that allows 1000 nested calls,
  \<open>generate_email\<close> still returns the twelfth candidate after eleven collisions, so no
  cap of ten retries stops it; and when every candidate collides, what ends
  \<open>generate_email\<close> and \<open>generate_oauth_client_id\<close> is the interpreter's
  \<open>RecursionError\<close> at that limit, not an exhaustion error raised after a cap.
\<close>

theorem generation_never_exhausted_counterexample:
  "generate_email demo_config words_free_at_11 [demo_alias] 1000 0 = Inr ''b2@domain''
   \<and> generate_email demo_config taken_words [demo_alias] 1000 0 = Inl RecursionError
   \<and> generate_oauth_client_id demo_convert_to_id taken_strings [demo_client] ''Demo'' 1000 0
       = Inl RecursionError"
proof -
  have "generate_email demo_config words_free_at_11 [demo_alias] 1000 0
      = Inr (words_free_at_11 (0 + 11) @ ''@'' @ EMAIL_DOMAIN demo_config)"
    by (rule generate_email_first_free)
      (simp_all add: demo_config_def words_free_at_11_def demo_alias_def GenEmail_get_by_def)
  moreover have "generate_email demo_config taken_words [demo_alias] 1000 0 = Inl RecursionError"
    by (rule generate_email_limit)
      (simp add: demo_config_def taken_words_def demo_alias_def GenEmail_get_by_def)
  moreover have "generate_oauth_client_id demo_convert_to_id taken_strings [demo_client] ''Demo'' 1000 0
      = Inl RecursionError"
    by (rule generate_oauth_client_id_limit)
      (simp add: demo_convert_to_id_def taken_strings_def demo_client_def Client_get_by_def)
  ultimately show ?thesis
    by (simp add: demo_config_def words_free_at_11_def)
qed

section \<open>Theorems: exchange of an authorization code\<close>

lemma find_filter_not: "find P (filter (\<lambda>x. \<not> P x) xs) = None"
  by (induction xs) auto

text \<open>
  C4. When an exchange of a code succeeds, it stores one token, with the scope of the
  code, and removes the code in the same step; any later exchange of the same code, at
  any time and with any fresh token, fails with \<open>InvalidGrant\<close> and so issues no
  second token.
\<close>

theorem code_single_use:
  "exchange st now client_id client_secret code redirect_uri access_token = Inr (token, st')
   \<longrightarrow> exchange st' now' client_id client_secret code redirect_uri access_token' = Inl InvalidGrant
     \<and> os_tokens st' = os_tokens st @ [token]
     \<and> find (\<lambda>(a, expiry). ac_code a = code) (os_codes st') = None
     \<and> (\<exists>a expiry. find (\<lambda>(a, expiry). ac_code a = code) (os_codes st) = Some (a, expiry)
           \<and> now < expiry \<and> ot_scope token = ac_scope a
           \<and> ot_access_token token = Some access_token)"
proof
  assume ex: "exchange st now client_id client_secret code redirect_uri access_token = Inr (token, st')"
  let ?P = "\<lambda>(a, expiry). ac_code a = code"
  from ex obtain client where
    cl: "find (\<lambda>c. c_oauth_client_id c = client_id \<and> c_oauth_client_secret c = client_secret)
           (os_clients st) = Some client"
    by (auto simp: exchange_def split: option.splits)
  from ex cl obtain a expiry where
    co: "find ?P (os_codes st) = Some (a, expiry)"
    by (auto simp: exchange_def split: option.splits)
  from ex cl co have ok: "now < expiry" "ot_scope token = ac_scope a"
      "ot_access_token token = Some access_token"
    and st': "os_clients st' = os_clients st"
      "os_codes st' = filter (\<lambda>x. \<not> ?P x) (os_codes st)"
      "os_tokens st' = os_tokens st @ [token]"
    by (auto simp: exchange_def Let_def case_prod_unfold split: if_splits)
  have gone: "find ?P (os_codes st') = None"
    unfolding st'(2) by (rule find_filter_not)
  have again: "exchange st' now' client_id client_secret code redirect_uri access_token'
      = Inl InvalidGrant"
    using cl gone by (simp add: exchange_def st'(1))
  from again st'(3) gone co ok show "exchange st' now' client_id client_secret code redirect_uri access_token' = Inl InvalidGrant
     \<and> os_tokens st' = os_tokens st @ [token]
     \<and> find ?P (os_codes st') = None
     \<and> (\<exists>a expiry. find ?P (os_codes st) = Some (a, expiry)
           \<and> now < expiry \<and> ot_scope token = ac_scope a
           \<and> ot_access_token token = Some access_token)"
    by blast
qed

theorem code_single_use_witness:
  "exchange demo_store 100 ''demo-abcde'' ''secret'' ''c0de'' (Some ''https://rp.example/cb'') ''t0ken''
     = Inr (demo_token, demo_store\<lparr>os_codes := [], os_tokens := [demo_token]\<rparr>)
   \<and> exchange (demo_store\<lparr>os_codes := [], os_tokens := [demo_token]\<rparr>) 200 ''demo-abcde'' ''secret''
         ''c0de'' (Some ''https://rp.example/cb'') ''t1ken''
       = Inl InvalidGrant"
proof -
  have first: "exchange demo_store 100 ''demo-abcde'' ''secret'' ''c0de''
      (Some ''https://rp.example/cb'') ''t0ken''
      = Inr (demo_token, demo_store\<lparr>os_codes := [], os_tokens := [demo_token]\<rparr>)"
    by (simp add: exchange_def demo_store_def demo_code_def demo_token_def demo_client_def Let_def)
  with code_single_use [where st = demo_store and now = 100 and client_id = "''demo-abcde''"
      and client_secret = "''secret''" and code = "''c0de''"
      and redirect_uri = "Some ''https://rp.example/cb''" and access_token = "''t0ken''"
      and token = demo_token and st' = "demo_store\<lparr>os_codes := [], os_tokens := [demo_token]\<rparr>"
      and now' = 200 and access_token' = "''t1ken''"]
  show ?thesis by simp
qed

end
